theory Spec2Isabelle
  imports Main
begin

section \<open>Preset catalog\<close>

text \<open>
  The enumerations \<open>Codec\<close>, \<open>Resolution\<close> and \<open>VideoPreset\<close> of \<open>main.py\<close>. A Python
  enum member has a name and a value; the members become constructors, and \<open>_name\<close> and
  \<open>_value\<close> functions give what \<open>member.name\<close> and \<open>member.value\<close> give.
\<close>

record CodecInfo =
  extension :: string
  codec :: string
  lib :: string

datatype Codec = h265 | av1

fun Codec_value :: "Codec \<Rightarrow> CodecInfo" where
  "Codec_value h265 = \<lparr>extension = ''mp4'', codec = ''h265'', lib = ''libx265''\<rparr>"
| "Codec_value av1 = \<lparr>extension = ''mkv'', codec = ''av1'', lib = ''libaom-av1''\<rparr>"

datatype Resolution = fhd | uhd

fun Resolution_name :: "Resolution \<Rightarrow> string" where
  "Resolution_name fhd = ''fhd''"
| "Resolution_name uhd = ''uhd''"

fun Resolution_value :: "Resolution \<Rightarrow> string" where
  "Resolution_value fhd = ''1920:1080''"
| "Resolution_value uhd = ''3840:2160''"

record VideoPresetInfo =
  codec :: Codec
  resolution :: Resolution
  bitrateMbps :: int

datatype VideoPreset = h265_fhd_6 | h265_uhd_40 | av1_fhd_5 | av1_uhd_20

fun VideoPreset_name :: "VideoPreset \<Rightarrow> string" where
  "VideoPreset_name h265_fhd_6 = ''h265_fhd_6''"
| "VideoPreset_name h265_uhd_40 = ''h265_uhd_40''"
| "VideoPreset_name av1_fhd_5 = ''av1_fhd_5''"
| "VideoPreset_name av1_uhd_20 = ''av1_uhd_20''"

fun VideoPreset_value :: "VideoPreset \<Rightarrow> VideoPresetInfo" where
  "VideoPreset_value h265_fhd_6 = \<lparr>codec = h265, resolution = fhd, bitrateMbps = 6\<rparr>"
| "VideoPreset_value h265_uhd_40 = \<lparr>codec = h265, resolution = uhd, bitrateMbps = 40\<rparr>"
| "VideoPreset_value av1_fhd_5 = \<lparr>codec = av1, resolution = fhd, bitrateMbps = 5\<rparr>"
| "VideoPreset_value av1_uhd_20 = \<lparr>codec = av1, resolution = uhd, bitrateMbps = 20\<rparr>"

text \<open>Iterating over the enum class visits the members in the order of their declaration.\<close>

definition VideoPreset_members :: "VideoPreset list" where
  "VideoPreset_members = [h265_fhd_6, h265_uhd_40, av1_fhd_5, av1_uhd_20]"

fun get_preset_by_name_loop :: "VideoPreset list \<Rightarrow> string \<Rightarrow> VideoPresetInfo option" where
  "get_preset_by_name_loop [] preset_name = None"
| "get_preset_by_name_loop (preset # rest) preset_name =
     (if VideoPreset_name preset = preset_name then Some (VideoPreset_value preset)
      else get_preset_by_name_loop rest preset_name)"

definition get_preset_by_name :: "string \<Rightarrow> VideoPresetInfo option" where
  "get_preset_by_name preset_name = get_preset_by_name_loop VideoPreset_members preset_name"

section \<open>Strings\<close>

text \<open>
  A \<open>string\<close> is a list of bytes. \<open>str.lower\<close> is modelled on the ASCII letters; a byte
  outside \<open>A\<close>..\<open>Z\<close> is left alone. The program compares the lowered suffix with
  \<open>.mp4\<close> only, and no character outside ASCII lowers to an ASCII letter of that string,
  so the comparison is the same.
\<close>

definition lower_char :: "char \<Rightarrow> char" where
  "lower_char c =
     (if (65::nat) \<le> of_char c \<and> of_char c \<le> (90::nat) then char_of (of_char c + (32::nat)) else c)"

definition lower :: "string \<Rightarrow> string" where
  "lower s = map lower_char s"

text \<open>The decimal rendering of an integer, as an f-string gives it.\<close>

definition digit_char :: "nat \<Rightarrow> char" where
  "digit_char d = char_of (48 + d)"

function str_nat :: "nat \<Rightarrow> string" where
  "str_nat n = (if n < 10 then [digit_char n] else str_nat (n div 10) @ [digit_char (n mod 10)])"
  by pat_completeness auto
termination
  by (relation "measure id") auto

definition str_int :: "int \<Rightarrow> string" where
  "str_int i = (if i < 0 then CHR ''-'' # str_nat (nat (- i)) else str_nat (nat i))"

text \<open>
  \<open>s.rfind(c)\<close>: the index of the last occurrence of \<open>c\<close>, \<open>None\<close> where Python
  returns \<open>-1\<close>.
\<close>

definition rfind :: "char \<Rightarrow> string \<Rightarrow> nat option" where
  "rfind c s =
     (if c \<in> set s then Some (length s - 1 - length (takeWhile (\<lambda>x. x \<noteq> c) (rev s))) else None)"

text \<open>\<open>s.split(c)\<close> with a one-character separator.\<close>

fun split_on :: "char \<Rightarrow> string \<Rightarrow> string list" where
  "split_on c [] = [[]]"
| "split_on c (x # xs) =
     (if x = c then [] # split_on c xs
      else (case split_on c xs of [] \<Rightarrow> [[x]] | w # ws \<Rightarrow> (x # w) # ws))"

text \<open>\<open>sep.join(xs)\<close>.\<close>

fun join :: "string \<Rightarrow> string list \<Rightarrow> string" where
  "join sep [] = []"
| "join sep [x] = x"
| "join sep (x # y # ys) = x @ sep @ join sep (y # ys)"

section \<open>Paths\<close>

text \<open>
  A \<open>pathlib\<close> path of the POSIX flavour after parsing: the root (empty for a relative
  path) and the components below it. The methods follow CPython 3.11's \<open>pathlib.py\<close>;
  \<open>with_stem\<close> needs 3.9 at least.
\<close>

record path =
  root :: string
  tail :: "string list"

datatype error =
    ValueError string
  | FileNotFoundError string
  | CalledProcessError string int
  | OSError
  | TypeError
  | AttributeError

definition str_path :: "path \<Rightarrow> string" where
  "str_path p = (let s = root p @ join ''/'' (tail p) in if s = [] then ''.'' else s)"

definition name :: "path \<Rightarrow> string" where
  "name p = (if tail p = [] then [] else last (tail p))"

definition suffix :: "path \<Rightarrow> string" where
  "suffix p =
     (let n = name p in
      case rfind CHR ''.'' n of
        None \<Rightarrow> []
      | Some i \<Rightarrow> if 0 < i \<and> i < length n - 1 then drop i n else [])"

definition stem :: "path \<Rightarrow> string" where
  "stem p =
     (let n = name p in
      case rfind CHR ''.'' n of
        None \<Rightarrow> n
      | Some i \<Rightarrow> if 0 < i \<and> i < length n - 1 then take i n else n)"

text \<open>
  \<open>with_name\<close> parses the new name as a path of its own and accepts it when that path
  is relative and has one component: \<open>parse_parts\<close> splits at \<open>/\<close> and drops the empty
  components and the \<open>.\<close> ones.
\<close>

definition parse_parts_rel :: "string \<Rightarrow> string list" where
  "parse_parts_rel s = filter (\<lambda>x. x \<noteq> [] \<and> x \<noteq> ''.'') (split_on CHR ''/'' s)"

definition with_name :: "path \<Rightarrow> string \<Rightarrow> error + path" where
  "with_name p n =
     (if name p = [] then Inl (ValueError ''has an empty name'')
      else if n = [] \<or> last n = CHR ''/'' \<or> hd n = CHR ''/'' \<or> length (parse_parts_rel n) \<noteq> 1
        then Inl (ValueError ''Invalid name'')
      else Inr (p\<lparr>tail := butlast (tail p) @ [n]\<rparr>))"

definition with_stem :: "path \<Rightarrow> string \<Rightarrow> error + path" where
  "with_stem p s = with_name p (s @ suffix p)"

definition with_suffix :: "path \<Rightarrow> string \<Rightarrow> error + path" where
  "with_suffix p sfx =
     (if CHR ''/'' \<in> set sfx then Inl (ValueError ''Invalid suffix'')
      else if (sfx \<noteq> [] \<and> hd sfx \<noteq> CHR ''.'') \<or> sfx = ''.'' then Inl (ValueError ''Invalid suffix'')
      else if name p = [] then Inl (ValueError ''has an empty name'')
      else
        (let old_suffix = suffix p;
             n = (if old_suffix = [] then name p @ sfx
                  else take (length (name p) - length old_suffix) (name p) @ sfx)
         in Inr (p\<lparr>tail := butlast (tail p) @ [n]\<rparr>)))"

text \<open>The directory a path lies in: the path without its last component.\<close>

definition parent :: "path \<Rightarrow> path" where
  "parent p = p\<lparr>tail := butlast (tail p)\<rparr>"

section \<open>Output path\<close>

text \<open>
  The first two statements of the loop body of \<open>process_mp4_files\<close>: the name of the
  output file, derived from the input file and the preset.
\<close>

definition extra_info :: "VideoPresetInfo \<Rightarrow> string" where
  "extra_info preset =
     Resolution_name (resolution preset) @ ''_'' @ CodecInfo.codec (Codec_value (VideoPresetInfo.codec preset))
       @ ''_'' @ str_int (bitrateMbps preset) @ ''mbps''"

definition output_file :: "path \<Rightarrow> VideoPresetInfo \<Rightarrow> error + path" where
  "output_file input_file preset =
     (case with_stem input_file (stem input_file @ ''_'' @ extra_info preset) of
        Inl e \<Rightarrow> Inl e
      | Inr p \<Rightarrow> with_suffix p (''.'' @ extension (Codec_value (VideoPresetInfo.codec preset))))"

text \<open>
  \<open>Path(s)\<close> for a string: \<open>splitroot\<close> takes the leading slashes off (exactly two of
  them are kept as the root \<open>//\<close>), and the rest is split into components.
\<close>

definition splitroot :: "string \<Rightarrow> string \<times> string" where
  "splitroot part =
     (if part \<noteq> [] \<and> hd part = CHR ''/'' then
        (let stripped = dropWhile (\<lambda>c. c = CHR ''/'') part in
         if length part - length stripped = 2 then (''//'', stripped) else (''/'', stripped))
      else ([], part))"

definition Path :: "string \<Rightarrow> path" where
  "Path s = (case splitroot s of (r, rel) \<Rightarrow> \<lparr>root = r, tail = parse_parts_rel rel\<rparr>)"

section \<open>File system\<close>

text \<open>
  The file system the program runs against: a tree of directories, regular files and
  other entries (sockets, devices and the like), and the working directory. A relative path
  is resolved from the working directory, a rooted one from the top. Symbolic links and
  the \<open>..\<close> entry are not modelled.
\<close>

datatype node = File | Special | Dir "(string \<times> node) list"

record filesystem =
  slash :: node
  cwd :: "string list"

fun lookup :: "node \<Rightarrow> string list \<Rightarrow> node option" where
  "lookup t [] = Some t"
| "lookup (Dir es) (n # ns) = (case map_of es n of None \<Rightarrow> None | Some t \<Rightarrow> lookup t ns)"
| "lookup File (n # ns) = None"
| "lookup Special (n # ns) = None"

definition resolve :: "filesystem \<Rightarrow> path \<Rightarrow> string list" where
  "resolve f p = (if root p = [] then cwd f @ tail p else tail p)"

definition stat :: "filesystem \<Rightarrow> path \<Rightarrow> node option" where
  "stat f p = lookup (slash f) (resolve f p)"

definition exists :: "filesystem \<Rightarrow> path \<Rightarrow> bool" where
  "exists f p = (stat f p \<noteq> None)"

definition is_file :: "filesystem \<Rightarrow> path \<Rightarrow> bool" where
  "is_file f p = (stat f p = Some File)"

definition is_dir :: "filesystem \<Rightarrow> path \<Rightarrow> bool" where
  "is_dir f p = (case stat f p of Some (Dir es) \<Rightarrow> True | _ \<Rightarrow> False)"

text \<open>
  \<open>path.rglob('*')\<close>. The recursive selector walks the directories below the starting
  point, each before its subdirectories, and hands each of them to the selector of \<open>*\<close>,
  which yields every entry of that directory. A path already yielded is not yielded again.
  The paths are kept relative to the starting point here and joined to it in
  \<open>rglob_star\<close>.
\<close>

fun iterate_directories :: "string list \<Rightarrow> node \<Rightarrow> (string list \<times> (string \<times> node) list) list"
  and iterate_subdirectories :: "string list \<Rightarrow> (string \<times> node) list \<Rightarrow> (string list \<times> (string \<times> node) list) list"
where
  "iterate_directories parent_path (Dir es) = (parent_path, es) # iterate_subdirectories parent_path es"
| "iterate_directories parent_path File = []"
| "iterate_directories parent_path Special = []"
| "iterate_subdirectories parent_path [] = []"
| "iterate_subdirectories parent_path ((n, t) # es) =
     iterate_directories (parent_path @ [n]) t @ iterate_subdirectories parent_path es"

definition wildcard_select :: "string list \<times> (string \<times> node) list \<Rightarrow> string list list" where
  "wildcard_select d = (case d of (parent_path, es) \<Rightarrow> map (\<lambda>e. parent_path @ [fst e]) es)"

fun yield_once :: "'a list \<Rightarrow> 'a list \<Rightarrow> 'a list" where
  "yield_once yielded [] = []"
| "yield_once yielded (p # ps) =
     (if p \<in> set yielded then yield_once yielded ps else p # yield_once (p # yielded) ps)"

definition recursive_select :: "node \<Rightarrow> string list list" where
  "recursive_select t = yield_once [] (concat (map wildcard_select (iterate_directories [] t)))"

definition rglob_star :: "filesystem \<Rightarrow> path \<Rightarrow> path list" where
  "rglob_star f p =
     (case stat f p of
        Some (Dir es) \<Rightarrow> map (\<lambda>rel. p\<lparr>tail := tail p @ rel\<rparr>) (recursive_select (Dir es))
      | _ \<Rightarrow> [])"

section \<open>The program's state\<close>

text \<open>
  What the program reads and writes: the file system, the lines printed on standard
  output, the records handed to \<open>logging\<close>, and the command lines handed to
  \<open>subprocess.run\<close>, each in order.
\<close>

datatype level = INFO | WARNING | ERROR

record world =
  fs :: filesystem
  stdout :: "string list"
  log_records :: "(level \<times> string) list"
  invoked :: "string list"

definition print :: "string \<Rightarrow> world \<Rightarrow> world" where
  "print line w = w\<lparr>stdout := stdout w @ [line]\<rparr>"

definition logging :: "level \<Rightarrow> string \<Rightarrow> world \<Rightarrow> world" where
  "logging lvl msg w = w\<lparr>log_records := log_records w @ [(lvl, msg)]\<rparr>"

text \<open>
  The external tool: what running a command line through the shell does to the file system,
  and how the run ends. It is a parameter of the model. \<open>SpawnError\<close> is the case that
  \<open>subprocess.run\<close> cannot start the shell and raises \<open>OSError\<close>.
\<close>

datatype run_result = ReturnCode int | SpawnError

type_synonym tool = "string \<Rightarrow> filesystem \<Rightarrow> run_result \<times> filesystem"

section \<open>Discovery\<close>

definition get_mp4_files :: "path \<Rightarrow> world \<Rightarrow> path list \<times> world" where
  "get_mp4_files p w =
     (if is_file (fs w) p \<and> lower (suffix p) = ''.mp4'' then ([p], w)
      else if is_dir (fs w) p then
        (filter (\<lambda>file. lower (suffix file) = ''.mp4'') (rglob_star (fs w) p), w)
      else ([], print (str_path p @ '' is neither a valid file nor a folder.'') w))"

section \<open>Conversion of one file\<close>

definition dq :: char where
  "dq = CHR 0x22"

definition sq :: char where
  "sq = CHR 0x27"

text \<open>The command line of \<open>exec_ffmpeg\<close>, the three f-string pieces put together.\<close>

definition ffmpeg_cmd :: "path \<Rightarrow> path \<Rightarrow> VideoPresetInfo \<Rightarrow> string" where
  "ffmpeg_cmd input_path output_path preset =
     ''ffmpeg -i '' @ [dq] @ str_path input_path @ [dq] @ '' -c:v ''
       @ lib (Codec_value (VideoPresetInfo.codec preset)) @ '' -crf 23 -preset medium ''
       @ ''-vf '' @ [dq] @ ''scale='' @ Resolution_value (resolution preset) @ [dq] @ '' -c:a copy ''
       @ ''-loglevel error '' @ [dq] @ str_path output_path @ [dq]"

text \<open>
  \<open>str(e)\<close> of a \<open>CalledProcessError\<close>. For a negative return code (the shell died
  of a signal) Python prints the signal's name; the number stands for it here.
\<close>

fun str_error :: "error \<Rightarrow> string" where
  "str_error (CalledProcessError cmd rc) =
     (if rc < 0 then ''Command '' @ [sq] @ cmd @ [sq] @ '' died with signal '' @ str_int (- rc) @ ''.''
      else ''Command '' @ [sq] @ cmd @ [sq] @ '' returned non-zero exit status '' @ str_int rc @ ''.'')"
| "str_error (ValueError msg) = msg"
| "str_error (FileNotFoundError msg) = msg"
| "str_error OSError = []"
| "str_error TypeError = []"
| "str_error AttributeError = []"

text \<open>
  \<open>exec_ffmpeg\<close>. The result is the exception that leaves the function, if any, and the
  state it leaves behind. With \<open>check=True\<close> a return code other than zero raises
  \<open>CalledProcessError\<close>, which is logged and raised again; an \<open>OSError\<close> is not
  caught.
\<close>

definition exec_ffmpeg :: "tool \<Rightarrow> path \<Rightarrow> path \<Rightarrow> VideoPresetInfo \<Rightarrow> world \<Rightarrow> error option \<times> world" where
  "exec_ffmpeg run input_path output_path preset w =
     (let w1 = logging INFO (''converting: '' @ str_path input_path @ '' to '' @ str_path output_path) w;
          w2 = logging INFO (''input_path: '' @ str_path input_path) w1;
          w3 = logging INFO (''output_path: '' @ str_path output_path) w2
      in
      if \<not> exists (fs w3) input_path then
        (let error_msg = ''Input file '' @ str_path input_path @ '' does not exist.''
         in (Some (FileNotFoundError error_msg), logging ERROR error_msg w3))
      else if exists (fs w3) output_path then
        (None, logging WARNING
           (''Output file '' @ str_path output_path @ '' already exists. Skipping conversion.'') w3)
      else
        (let cmd = ffmpeg_cmd input_path output_path preset;
             w4 = logging INFO (''Executing command: '' @ cmd) w3
         in case run cmd (fs w4) of
              (ReturnCode rc, f) \<Rightarrow>
                (let w5 = w4\<lparr>fs := f, invoked := invoked w4 @ [cmd]\<rparr> in
                 if rc = 0 then
                   (None, logging INFO
                      (''Conversion completed successfully. Output file: '' @ str_path output_path) w5)
                 else
                   (Some (CalledProcessError cmd rc), logging ERROR
                      (''Error occurred during ffmpeg execution: '' @ str_error (CalledProcessError cmd rc)) w5))
            | (SpawnError, f) \<Rightarrow> (Some OSError, w4\<lparr>fs := f, invoked := invoked w4 @ [cmd]\<rparr>)))"

section \<open>The batch\<close>

text \<open>
  The loop of \<open>process_mp4_files\<close>, with \<open>index\<close> counting from 1. An exception of
  the body ends the loop. The message logged after each file also carries the elapsed and the
  estimated remaining time, which come from the wall clock and are left out here.
\<close>

definition progress_message :: "nat \<Rightarrow> nat \<Rightarrow> string" where
  "progress_message index total_files =
     ''Processed '' @ str_nat index @ ''/'' @ str_nat total_files"

fun process_loop :: "tool \<Rightarrow> VideoPresetInfo \<Rightarrow> nat \<Rightarrow> nat \<Rightarrow> path list \<Rightarrow> world \<Rightarrow> error option \<times> world" where
  "process_loop run preset total_files index [] w = (None, w)"
| "process_loop run preset total_files index (input_file # rest) w =
     (case output_file input_file preset of
        Inl e \<Rightarrow> (Some e, w)
      | Inr output_path \<Rightarrow>
          (case exec_ffmpeg run input_file output_path preset w of
             (Some e, w') \<Rightarrow> (Some e, w')
           | (None, w') \<Rightarrow>
               process_loop run preset total_files (index + 1) rest
                 (logging INFO (progress_message index total_files) w')))"

definition process_mp4_files :: "tool \<Rightarrow> path list \<Rightarrow> VideoPresetInfo \<Rightarrow> world \<Rightarrow> error option \<times> world" where
  "process_mp4_files run mp4_files preset w = process_loop run preset (length mp4_files) 1 mp4_files w"

definition main :: "tool \<Rightarrow> path \<Rightarrow> VideoPresetInfo \<Rightarrow> world \<Rightarrow> error option \<times> world" where
  "main run input_path preset w =
     (case get_mp4_files input_path w of (mp4_files, w') \<Rightarrow> process_mp4_files run mp4_files preset w')"

section \<open>The command line\<close>

text \<open>
  The block under \<open>__main__\<close>, after \<open>argparse\<close> has accepted the arguments: \<open>input\<close> is
  absent or a string, \<open>preset\<close> a string, \<open>list_presets\<close> the flag. The outcome is the exit
  status, or the exception that ends the program.
\<close>

record args =
  input :: "string option"
  preset :: string
  list_presets :: bool

datatype outcome = Exit int | Raised error

definition str_CodecInfo :: "CodecInfo \<Rightarrow> string" where
  "str_CodecInfo c =
     ''codec:'' @ CodecInfo.codec c @ '' (ext:'' @ extension c @ '', lib:'' @ lib c @ '')''"

definition str_Codec :: "Codec \<Rightarrow> string" where
  "str_Codec c = str_CodecInfo (Codec_value c)"

definition str_VideoPresetInfo :: "VideoPresetInfo \<Rightarrow> string" where
  "str_VideoPresetInfo p =
     str_Codec (VideoPresetInfo.codec p) @ '' '' @ Resolution_name (resolution p) @ '':''
       @ Resolution_value (resolution p) @ '' '' @ str_int (bitrateMbps p) @ ''Mbps''"

definition preset_line :: "VideoPreset \<Rightarrow> string" where
  "preset_line member = ''  * '' @ VideoPreset_name member @ '': '' @ str_VideoPresetInfo (VideoPreset_value member)"

definition print_presets :: "world \<Rightarrow> world" where
  "print_presets w =
     print [] (foldl (\<lambda>w' member. print (preset_line member) w') (print ''PRESETS:'' (print [] w))
       VideoPreset_members)"

text \<open>
  Without a preset (which \<open>argparse\<close>'s \<open>choices\<close> rules out) the first pass of the loop
  would read \<open>preset.resolution\<close> of \<open>None\<close>; without an input, \<open>Path(None)\<close> raises.
\<close>

definition program :: "tool \<Rightarrow> args \<Rightarrow> world \<Rightarrow> outcome \<times> world" where
  "program run a w =
     (if list_presets a then (Exit 1, print_presets w)
      else
        (let p = get_preset_by_name (preset a);
             w1 = logging INFO (''input: '' @ (case input a of None \<Rightarrow> ''None'' | Some s \<Rightarrow> s)) w;
             w2 = logging INFO (''preset: '' @ (case p of None \<Rightarrow> ''None'' | Some i \<Rightarrow> str_VideoPresetInfo i)) w1
         in case input a of
              None \<Rightarrow> (Raised TypeError, w2)
            | Some s \<Rightarrow>
                (case p of
                   None \<Rightarrow>
                     (case get_mp4_files (Path s) w2 of
                        ([], w3) \<Rightarrow> (Exit 0, w3)
                      | (file # files, w3) \<Rightarrow> (Raised AttributeError, w3))
                 | Some i \<Rightarrow>
                     (case main run (Path s) i w2 of
                        (None, w3) \<Rightarrow> (Exit 0, w3)
                      | (Some e, w3) \<Rightarrow> (Raised e, w3)))))"

section \<open>The shell's view of a command line\<close>






section \<open>Example file systems\<close>

text \<open>
  A directory \<open>/videos\<close> with the files \<open>a.mp4\<close>, \<open>a.MP4\<close> and \<open>b.txt\<close> and the
  subdirectory \<open>sub\<close> holding \<open>c.mp4\<close>.
\<close>

definition videos_fs :: filesystem where
  "videos_fs =
     \<lparr>slash = Dir [(''videos'',
        Dir [(''a.mp4'', File), (''a.MP4'', File), (''b.txt'', File), (''sub'', Dir [(''c.mp4'', File)])])],
      cwd = []\<rparr>"

text \<open>A directory \<open>/videos\<close> with the file \<open>a.mp4\<close> and a subdirectory named \<open>clips.mp4\<close>.\<close>

definition clips_fs :: filesystem where
  "clips_fs =
     \<lparr>slash = Dir [(''videos'', Dir [(''a.mp4'', File), (''clips.mp4'', Dir [(''notes.txt'', File)])])],
      cwd = []\<rparr>"

definition start :: "filesystem \<Rightarrow> world" where
  "start f = \<lparr>fs = f, stdout = [], log_records = [], invoked = []\<rparr>"

text \<open>
  A directory \<open>/videos\<close> in which \<open>a.mp4\<close> has been converted with the preset \<open>av1_fhd_5\<close>
  and \<open>b.mp4\<close> and \<open>c.mp4\<close> have not, and the same directory after the conversion of
  \<open>b.mp4\<close>.
\<close>

definition batch_fs :: filesystem where
  "batch_fs =
     \<lparr>slash = Dir [(''videos'',
        Dir [(''a.mp4'', File), (''a_fhd_av1_5mbps.mkv'', File), (''b.mp4'', File), (''c.mp4'', File)])],
      cwd = []\<rparr>"

definition done_fs :: filesystem where
  "done_fs =
     \<lparr>slash = Dir [(''videos'',
        Dir [(''a.mp4'', File), (''a_fhd_av1_5mbps.mkv'', File), (''b.mp4'', File),
             (''b_fhd_av1_5mbps.mkv'', File), (''c.mp4'', File)])],
      cwd = []\<rparr>"

definition file_a :: path where "file_a = Path ''/videos/a.mp4''"
definition file_b :: path where "file_b = Path ''/videos/b.mp4''"
definition file_c :: path where "file_c = Path ''/videos/c.mp4''"
definition output_a :: path where "output_a = Path ''/videos/a_fhd_av1_5mbps.mkv''"
definition output_b :: path where "output_b = Path ''/videos/b_fhd_av1_5mbps.mkv''"
definition gone :: path where "gone = Path ''/videos/gone.mp4''"
definition output_gone :: path where "output_gone = Path ''/videos/gone_fhd_av1_5mbps.mkv''"
definition av1_fhd :: VideoPresetInfo where "av1_fhd = VideoPreset_value av1_fhd_5"

text \<open>A tool that fails on every command, and one that leaves \<open>done_fs\<close> behind.\<close>

definition refusing :: tool where
  "refusing cmd fsys = (ReturnCode 1, fsys)"

definition producing :: tool where
  "producing cmd fsys = (ReturnCode 0, done_fs)"

definition list_args :: args where
  "list_args = \<lparr>input = None, preset = ''h265_fhd_6'', list_presets = True\<rparr>"

text \<open>A directory \<open>/videos\<close> that holds the output file of \<open>gone.mp4\<close> and not \<open>gone.mp4\<close>.\<close>

definition orphan_fs :: filesystem where
  "orphan_fs = \<lparr>slash = Dir [(''videos'', Dir [(''gone_fhd_av1_5mbps.mkv'', File)])], cwd = []\<rparr>"

text \<open>
  A directory \<open>/videos\<close> with the file \<open>a.mp4\<close>, the same directory after the conversion
  of \<open>a.mp4\<close> with the preset \<open>h265_fhd_6\<close>, and after the conversion of that output file
  in turn; and a tool that writes these output files.
\<close>

definition fresh_fs :: filesystem where
  "fresh_fs = \<lparr>slash = Dir [(''videos'', Dir [(''a.mp4'', File)])], cwd = []\<rparr>"

definition once_fs :: filesystem where
  "once_fs =
     \<lparr>slash = Dir [(''videos'', Dir [(''a.mp4'', File), (''a_fhd_h265_6mbps.mp4'', File)])], cwd = []\<rparr>"

definition twice_fs :: filesystem where
  "twice_fs =
     \<lparr>slash = Dir [(''videos'',
        Dir [(''a.mp4'', File), (''a_fhd_h265_6mbps.mp4'', File),
             (''a_fhd_h265_6mbps_fhd_h265_6mbps.mp4'', File)])],
      cwd = []\<rparr>"

definition h265_fhd :: VideoPresetInfo where "h265_fhd = VideoPreset_value h265_fhd_6"
definition once_a :: path where "once_a = Path ''/videos/a_fhd_h265_6mbps.mp4''"
definition twice_a :: path where "twice_a = Path ''/videos/a_fhd_h265_6mbps_fhd_h265_6mbps.mp4''"

definition h265_tool :: tool where
  "h265_tool cmd fsys =
     (ReturnCode 0, if cmd = ffmpeg_cmd file_a once_a h265_fhd then once_fs else twice_fs)"

definition videos_args :: args where
  "videos_args = \<lparr>input = Some ''/videos'', preset = ''h265_fhd_6'', list_presets = False\<rparr>"





section \<open>Notions for the statements\<close>

text \<open>The state after the three records \<open>exec_ffmpeg\<close> logs on entry.\<close>

definition entered :: "path \<Rightarrow> path \<Rightarrow> world \<Rightarrow> world" where
  "entered input_path output_path w =
     logging INFO (''output_path: '' @ str_path output_path)
       (logging INFO (''input_path: '' @ str_path input_path)
         (logging INFO (''converting: '' @ str_path input_path @ '' to '' @ str_path output_path) w))"

text \<open>The exception \<open>subprocess.run\<close> with \<open>check=True\<close> raises for a result of the tool.\<close>

fun raised_by :: "string \<Rightarrow> run_result \<Rightarrow> error option" where
  "raised_by cmd (ReturnCode rc) = (if rc = 0 then None else Some (CalledProcessError cmd rc))"
| "raised_by cmd SpawnError = Some OSError"

text \<open>
  A file is converted in a file system when it and its output file exist there. A step from
  one file system to another keeps a batch when the input and output files of the batch
  that exist before it exist after it. A tool writes its output, for a batch, when each of its
  successful runs keeps the batch and leaves the output file of the command it was given.
\<close>

definition converted :: "VideoPresetInfo \<Rightarrow> filesystem \<Rightarrow> path \<Rightarrow> bool" where
  "converted P fsys f =
     (exists fsys f \<and> (case output_file f P of Inl e \<Rightarrow> False | Inr out \<Rightarrow> exists fsys out))"

definition kept :: "path list \<Rightarrow> VideoPresetInfo \<Rightarrow> filesystem \<Rightarrow> filesystem \<Rightarrow> bool" where
  "kept files P fsys fsys' =
     (\<forall>f \<in> set files. (exists fsys f \<longrightarrow> exists fsys' f)
        \<and> (\<forall>out. output_file f P = Inr out \<longrightarrow> exists fsys out \<longrightarrow> exists fsys' out))"

definition writes_output :: "tool \<Rightarrow> path list \<Rightarrow> VideoPresetInfo \<Rightarrow> bool" where
  "writes_output run files P =
     (\<forall>cmd fsys fsys'. run cmd fsys = (ReturnCode 0, fsys') \<longrightarrow>
        kept files P fsys fsys'
        \<and> (\<forall>f \<in> set files. \<forall>out. output_file f P = Inr out \<longrightarrow> cmd = ffmpeg_cmd f out P
              \<longrightarrow> exists fsys' out))"

section \<open>Facts about strings and paths\<close>

lemma rfind_None: "c \<notin> set s \<Longrightarrow> rfind c s = None"
  by (simp add: rfind_def)

lemma rfind_append: "c \<notin> set b \<Longrightarrow> rfind c (a @ c # b) = Some (length a)"
proof -
  assume nb: "c \<notin> set b"
  have "takeWhile (\<lambda>x. x \<noteq> c) (rev b @ c # rev a) = rev b"
    using nb by (auto simp add: takeWhile_tail)
  then show ?thesis by (simp add: rfind_def)
qed

lemma last_occurrence:
  assumes "c \<in> set s"
  obtains a b where "s = a @ c # b" and "c \<notin> set b"
  using assms split_list_last by fastforce

lemma digit_char_of_char: "d < 10 \<Longrightarrow> (of_char (digit_char d) :: nat) = 48 + d"
  by (simp add: digit_char_def)

lemma digit_char_plain: "d < 10 \<Longrightarrow> digit_char d \<noteq> CHR ''.'' \<and> digit_char d \<noteq> CHR ''/''"
proof -
  assume d: "d < 10"
  have "(of_char (digit_char d) :: nat) \<noteq> of_char (CHR ''.'')"
    and "(of_char (digit_char d) :: nat) \<noteq> of_char (CHR ''/'')"
    using digit_char_of_char [OF d] by simp_all
  then show ?thesis by auto
qed

lemma str_nat_plain: "CHR ''.'' \<notin> set (str_nat n) \<and> CHR ''/'' \<notin> set (str_nat n)"
proof (induction n rule: str_nat.induct)
  case (1 n)
  show ?case
  proof (cases "n < 10")
    case True
    then show ?thesis
      using digit_char_plain [of n] by (auto simp del: str_nat.simps simp add: str_nat.simps [of n])
  next
    case False
    have "n mod 10 < 10" by simp
    then show ?thesis
      using False 1 digit_char_plain [of "n mod 10"]
      by (auto simp del: str_nat.simps simp add: str_nat.simps [of n])
  qed
qed

lemma str_int_plain: "CHR ''.'' \<notin> set (str_int i) \<and> CHR ''/'' \<notin> set (str_int i)"
  using str_nat_plain by (simp add: str_int_def del: str_nat.simps)

lemma extra_info_plain: "CHR ''.'' \<notin> set (extra_info P) \<and> CHR ''/'' \<notin> set (extra_info P)"
  using str_int_plain [of "bitrateMbps P"]
  by (cases "resolution P"; cases "VideoPresetInfo.codec P") (simp_all add: extra_info_def)

lemma split_on_absent: "c \<notin> set s \<Longrightarrow> split_on c s = [s]"
  by (induction s) auto

lemma absent_ends: "s \<noteq> [] \<Longrightarrow> c \<notin> set s \<Longrightarrow> hd s \<noteq> c \<and> last s \<noteq> c"
  by (metis hd_in_set last_in_set)

lemma parse_parts_rel_single:
  "CHR ''/'' \<notin> set n \<Longrightarrow> n \<noteq> [] \<Longrightarrow> n \<noteq> ''.'' \<Longrightarrow> parse_parts_rel n = [n]"
  by (simp add: parse_parts_rel_def split_on_absent)

lemma name_update: "name (p\<lparr>tail := xs @ [n]\<rparr>) = n"
  by (simp add: name_def)

lemma suffix_split:
  assumes "name p = a @ CHR ''.'' # b" and "CHR ''.'' \<notin> set b"
  shows "suffix p = (if a \<noteq> [] \<and> b \<noteq> [] then CHR ''.'' # b else [])"
    and "stem p = (if a \<noteq> [] \<and> b \<noteq> [] then a else name p)"
  using assms rfind_append [of "CHR ''.''" b a]
  by (auto simp: suffix_def stem_def Let_def)

lemma suffix_nonempty:
  assumes "suffix p \<noteq> []"
  obtains a b where "name p = a @ CHR ''.'' # b" and "CHR ''.'' \<notin> set b"
    and "a \<noteq> []" and "b \<noteq> []" and "suffix p = CHR ''.'' # b" and "stem p = a"
proof (cases "CHR ''.'' \<in> set (name p)")
  case False
  then have "suffix p = []" by (simp add: suffix_def rfind_None)
  with assms show ?thesis by simp
next
  case True
  then obtain a b where ab: "name p = a @ CHR ''.'' # b" "CHR ''.'' \<notin> set b"
    by (rule last_occurrence)
  from suffix_split [OF ab] assms have ne: "a \<noteq> []" "b \<noteq> []" by (auto split: if_splits)
  with suffix_split [OF ab] have "suffix p = CHR ''.'' # b" "stem p = a" by simp_all
  with ab ne show ?thesis by (rule that)
qed

text \<open>
  The output path of a file that has a suffix: the new stem keeps the old suffix, which
  \<open>with_suffix\<close> then replaces.
\<close>

lemma output_file_suffixed:
  assumes sfx: "suffix I \<noteq> []" and slash: "CHR ''/'' \<notin> set (name I)"
  shows "output_file I P =
    Inr (I\<lparr>tail := butlast (tail I) @
      [stem I @ ''_'' @ extra_info P @ ''.'' @ extension (Codec_value (VideoPresetInfo.codec P))]\<rparr>)"
proof -
  from sfx obtain a b where ab: "name I = a @ CHR ''.'' # b" "CHR ''.'' \<notin> set b"
    "a \<noteq> []" "b \<noteq> []" "suffix I = CHR ''.'' # b" "stem I = a"
    by (rule suffix_nonempty)
  let ?N = "(a @ ''_'' @ extra_info P) @ CHR ''.'' # b"
  let ?p = "I\<lparr>tail := butlast (tail I) @ [?N]\<rparr>"
  have noslash: "CHR ''/'' \<notin> set ?N"
    using slash ab(1) extra_info_plain [of P] by auto
  have "?N \<noteq> ''.''" using ab(3) by (cases a) auto
  then have pp: "parse_parts_rel ?N = [?N]"
    using noslash by (intro parse_parts_rel_single) auto
  have hdN: "hd ?N \<noteq> CHR ''/''" "last ?N \<noteq> CHR ''/''"
    using absent_ends [OF _ noslash] by simp_all
  have nameI: "name I \<noteq> []" using ab(1) by simp
  have ws: "with_stem I (stem I @ ''_'' @ extra_info P) = Inr ?p"
    using nameI pp hdN ab(5,6) by (simp add: with_stem_def with_name_def)
  have np: "name ?p = ?N" by (rule name_update)
  have sp: "suffix ?p = CHR ''.'' # b"
    using suffix_split(1) [OF np ab(2)] ab(3,4) by simp
  have "with_suffix ?p (''.'' @ extension (Codec_value (VideoPresetInfo.codec P)))
      = Inr (?p\<lparr>tail := butlast (tail ?p) @
          [a @ ''_'' @ extra_info P @ ''.'' @ extension (Codec_value (VideoPresetInfo.codec P))]\<rparr>)"
    unfolding with_suffix_def np sp
    by (cases "VideoPresetInfo.codec P") (simp_all add: Let_def)
  then show ?thesis
    using ws ab(6) by (simp add: output_file_def)
qed

section \<open>The output path of an input file\<close>

text \<open>
  C1. For an input file \<open>I\<close>, a path whose suffix is \<open>.mp4\<close> in any letter case, as
  discovery yields them, and any preset \<open>P\<close>, the output path is the path of \<open>I\<close> with the
  last component replaced by the stem of \<open>I\<close>, the resolution's name, the codec's name, the
  bit rate followed by \<open>mbps\<close>, and the codec's extension, joined as
  \<open>stem_resolution_codec_bitratembps.extension\<close>; it lies in the directory of \<open>I\<close>. The
  components of a path hold no \<open>/\<close>.
\<close>

theorem output_file_of_input_file:
  assumes "lower (suffix I) = ''.mp4''" and "CHR ''/'' \<notin> set (name I)"
  shows "output_file I P =
      Inr (I\<lparr>tail := butlast (tail I) @
        [stem I @ ''_'' @ Resolution_name (resolution P) @ ''_''
           @ CodecInfo.codec (Codec_value (VideoPresetInfo.codec P)) @ ''_''
           @ str_int (bitrateMbps P) @ ''mbps'' @ ''.''
           @ extension (Codec_value (VideoPresetInfo.codec P))]\<rparr>)
    \<and> (\<forall>out. output_file I P = Inr out \<longrightarrow> parent out = parent I)"
proof -
  from assms(1) have "suffix I \<noteq> []" by (auto simp: lower_def)
  from output_file_suffixed [OF this assms(2), of P] show ?thesis
    by (auto simp: extra_info_def parent_def)
qed

text \<open>The preset \<open>av1_fhd_5\<close> and the input \<open>movie.mp4\<close> give \<open>movie_fhd_av1_5mbps.mkv\<close>.\<close>

theorem output_file_of_input_file_witness:
  "lower (suffix (Path ''movie.mp4'')) = ''.mp4''
   \<and> CHR ''/'' \<notin> set (name (Path ''movie.mp4''))
   \<and> output_file (Path ''movie.mp4'') (VideoPreset_value av1_fhd_5) = Inr (Path ''movie_fhd_av1_5mbps.mkv'')
   \<and> parent (Path ''movie_fhd_av1_5mbps.mkv'') = parent (Path ''movie.mp4'')"
proof -
  have h1: "lower (suffix (Path ''movie.mp4'')) = ''.mp4''" by code_simp
  have h2: "CHR ''/'' \<notin> set (name (Path ''movie.mp4''))" by code_simp
  have r: "(Path ''movie.mp4'')\<lparr>tail := butlast (tail (Path ''movie.mp4'')) @
        [stem (Path ''movie.mp4'') @ ''_'' @ Resolution_name (resolution (VideoPreset_value av1_fhd_5)) @ ''_''
           @ CodecInfo.codec (Codec_value (VideoPresetInfo.codec (VideoPreset_value av1_fhd_5))) @ ''_''
           @ str_int (bitrateMbps (VideoPreset_value av1_fhd_5)) @ ''mbps'' @ ''.''
           @ extension (Codec_value (VideoPresetInfo.codec (VideoPreset_value av1_fhd_5)))]\<rparr>
      = Path ''movie_fhd_av1_5mbps.mkv''" by code_simp
  from output_file_of_input_file [OF h1 h2, of "VideoPreset_value av1_fhd_5"] r h1 h2
  show ?thesis by simp
qed

text \<open>
  The suffix is needed. A name that ends in a dot has none, so the text appended to the stem
  becomes the suffix that \<open>with_suffix\<close> replaces: \<open>foo.\<close> gives \<open>foo.mkv\<close>. Discovery
  yields no such name.
\<close>

lemma output_file_trailing_dot:
  "output_file (Path ''/videos/foo.'') (VideoPreset_value av1_fhd_5) = Inr (Path ''/videos/foo.mkv'')"
  by code_simp

section \<open>Properties of discovery\<close>











text \<open>Every path discovered has the suffix \<open>.mp4\<close>, in some letter case.\<close>

lemma discovered_suffix:
  "file \<in> set (fst (get_mp4_files p w)) \<Longrightarrow> lower (suffix file) = ''.mp4''"
  by (auto simp: get_mp4_files_def split: if_splits)

lemma lower_char_dot: "lower_char c = CHR ''.'' \<longleftrightarrow> c = CHR ''.''"
proof
  assume l: "lower_char c = CHR ''.''"
  show "c = CHR ''.''"
  proof (cases "(65::nat) \<le> of_char c \<and> of_char c \<le> (90::nat)")
    case True
    with l have "char_of (of_char c + (32::nat)) = CHR ''.''" by (simp add: lower_char_def)
    then have "(of_char (char_of (of_char c + (32::nat))) :: nat) = of_char (CHR ''.'')" by (rule arg_cong)
    with True show ?thesis by simp
  next
    case False
    with l show ?thesis by (simp add: lower_char_def)
  qed
next
  assume "c = CHR ''.''"
  then show "lower_char c = CHR ''.''" by (simp add: lower_char_def)
qed

text \<open>
  What the suffix test says of the name of a path: the name ends in \<open>.mp4\<close>, in any letter
  case, and is longer than these four characters. A name that is \<open>.mp4\<close> and no more has
  no suffix.
\<close>

lemma mp4_suffix_name:
  assumes l: "lower (suffix p) = ''.mp4''"
  shows "4 < length (name p) \<and> lower (drop (length (name p) - 4) (name p)) = ''.mp4''"
proof -
  from l have "length (lower (suffix p)) = length ''.mp4''" by (rule arg_cong)
  then have len: "length (suffix p) = 4" by (simp add: lower_def)
  then have "suffix p \<noteq> []" by auto
  then obtain a b where ab: "name p = a @ CHR ''.'' # b" "a \<noteq> []" "suffix p = CHR ''.'' # b"
    by (rule suffix_nonempty)
  from ab(1,3) have n: "name p = a @ suffix p" by simp
  from ab(2) have "0 < length a" by simp
  with n len have "4 < length (name p)" by (metis add.commute length_append less_add_same_cancel1)
  moreover from n len have "drop (length (name p) - 4) (name p) = suffix p"
    by (metis add_diff_cancel_right' append_eq_conv_conj length_append)
  ultimately show ?thesis using l by (simp only: simp_thms)
qed

lemma four_chars:
  assumes "map f s = [y0, y1, y2, y3]"
  obtains c0 c1 c2 c3 where "s = [c0, c1, c2, c3]" and "f c0 = y0" and "f c1 = y1" and "f c2 = y2" and "f c3 = y3"
proof -
  from assms obtain c0 s1 where "s = c0 # s1" "f c0 = y0" "map f s1 = [y1, y2, y3]"
    by (auto simp: map_eq_Cons_conv)
  moreover then obtain c1 s2 where "s1 = c1 # s2" "f c1 = y1" "map f s2 = [y2, y3]"
    by (auto simp: map_eq_Cons_conv)
  moreover then obtain c2 s3 where "s2 = c2 # s3" "f c2 = y2" "map f s3 = [y3]"
    by (auto simp: map_eq_Cons_conv)
  moreover then obtain c3 where "s3 = [c3]" "f c3 = y3"
    by (auto simp: map_eq_Cons_conv)
  ultimately show ?thesis using that by blast
qed

lemma name_mp4_suffix:
  assumes r1: "4 < length (name p)" and r2: "lower (drop (length (name p) - 4) (name p)) = ''.mp4''"
  shows "lower (suffix p) = ''.mp4''"
proof -
  define a where "a = take (length (name p) - 4) (name p)"
  define s where "s = drop (length (name p) - 4) (name p)"
  from r1 have a: "a \<noteq> []" by (auto simp add: a_def)
  have n: "name p = a @ s" by (simp add: a_def s_def)
  from r2 have "map lower_char s = [CHR ''.'', CHR ''m'', CHR ''p'', CHR ''4'']"
    by (simp add: s_def lower_def)
  then obtain c0 c1 c2 c3 where s: "s = [c0, c1, c2, c3]"
    and c: "lower_char c0 = CHR ''.''" "lower_char c1 = CHR ''m''" "lower_char c2 = CHR ''p''"
      "lower_char c3 = CHR ''4''"
    by (rule four_chars)
  from c(1) have c0: "c0 = CHR ''.''" by (simp only: lower_char_dot)
  have "c1 \<noteq> CHR ''.''" "c2 \<noteq> CHR ''.''" "c3 \<noteq> CHR ''.''"
    using c(2-4) lower_char_dot [of c1] lower_char_dot [of c2] lower_char_dot [of c3] by auto
  then have d: "CHR ''.'' \<notin> set [c1, c2, c3]" by auto
  have "name p = a @ CHR ''.'' # [c1, c2, c3]" using n s c0 by simp
  from suffix_split(1) [OF this d] a have "suffix p = s" using s c0 by simp
  with r2 show ?thesis by (simp add: s_def)
qed

text \<open>
  The directory of the specification's example: discovery over \<open>/videos\<close> returns
  \<open>a.mp4\<close>, \<open>a.MP4\<close> and \<open>sub/c.mp4\<close>, and prints nothing.
\<close>

lemma get_mp4_files_videos:
  "get_mp4_files (Path ''/videos'') (start videos_fs) =
     ([Path ''/videos/a.mp4'', Path ''/videos/a.MP4'', Path ''/videos/sub/c.mp4''], start videos_fs)"
  by code_simp

text \<open>
  C4. Discovery over a directory is claimed to yield exactly the files with the extension
  \<open>.mp4\<close>. The scan of a directory tests the suffix only, where the branch for a single
  path tests \<open>is_file\<close> as well: over \<open>/videos\<close> holding the file \<open>a.mp4\<close> and the
  directory \<open>clips.mp4\<close>, it returns both, and the second is a directory and no file.
\<close>

theorem get_mp4_files_yields_directory:
  "fst (get_mp4_files (Path ''/videos'') (start clips_fs))
      = [Path ''/videos/a.mp4'', Path ''/videos/clips.mp4'']
   \<and> is_dir clips_fs (Path ''/videos/clips.mp4'')
   \<and> \<not> is_file clips_fs (Path ''/videos/clips.mp4'')"
  by code_simp



text \<open>
  C10. For a path that is a regular file whose suffix is not \<open>.mp4\<close> in any letter case,
  discovery returns no file and prints the line that it prints for a path that is neither
  a file nor a directory; the state is otherwise unchanged.
\<close>

theorem other_file_not_discovered:
  assumes "is_file (fs w) p" and "lower (suffix p) \<noteq> ''.mp4''"
  shows "get_mp4_files p w = ([], print (str_path p @ '' is neither a valid file nor a folder.'') w)"
proof -
  from assms(1) have "\<not> is_dir (fs w) p"
    by (auto simp: is_dir_def is_file_def)
  with assms(2) show ?thesis by (simp add: get_mp4_files_def)
qed

theorem other_file_not_discovered_witness:
  "is_file (fs (start videos_fs)) (Path ''/videos/b.txt'')
   \<and> lower (suffix (Path ''/videos/b.txt'')) \<noteq> ''.mp4''
   \<and> get_mp4_files (Path ''/videos/b.txt'') (start videos_fs)
       = ([], print (str_path (Path ''/videos/b.txt'') @ '' is neither a valid file nor a folder.'')
               (start videos_fs))
   \<and> stdout (snd (get_mp4_files (Path ''/videos/b.txt'') (start videos_fs)))
       = [''/videos/b.txt is neither a valid file nor a folder.'']"
proof -
  have h1: "is_file (fs (start videos_fs)) (Path ''/videos/b.txt'')" by code_simp
  have h2: "lower (suffix (Path ''/videos/b.txt'')) \<noteq> ''.mp4''" by code_simp
  have r: "stdout (print (str_path (Path ''/videos/b.txt'') @ '' is neither a valid file nor a folder.'')
      (start videos_fs)) = [''/videos/b.txt is neither a valid file nor a folder.'']" by code_simp
  from other_file_not_discovered [OF h1 h2] h1 h2 r show ?thesis by simp
qed

section \<open>Properties of a conversion and of the batch\<close>

lemma logging_frame [simp]:
  "fs (logging l m w) = fs w" "invoked (logging l m w) = invoked w" "stdout (logging l m w) = stdout w"
  by (simp_all add: logging_def)

lemma print_frame [simp]:
  "fs (print m w) = fs w" "invoked (print m w) = invoked w" "log_records (print m w) = log_records w"
  by (simp_all add: print_def)

lemma entered_frame [simp]:
  "fs (entered a b w) = fs w" "invoked (entered a b w) = invoked w" "stdout (entered a b w) = stdout w"
  by (simp_all add: entered_def)

lemma exec_ffmpeg_missing:
  assumes "\<not> exists (fs w) input_path"
  shows "exec_ffmpeg run input_path output_path P w =
     (Some (FileNotFoundError (''Input file '' @ str_path input_path @ '' does not exist.'')),
      logging ERROR (''Input file '' @ str_path input_path @ '' does not exist.'')
        (entered input_path output_path w))"
  using assms by (simp add: exec_ffmpeg_def entered_def Let_def)

lemma exec_ffmpeg_skip:
  assumes "exists (fs w) input_path" and "exists (fs w) output_path"
  shows "exec_ffmpeg run input_path output_path P w =
     (None, logging WARNING (''Output file '' @ str_path output_path @ '' already exists. Skipping conversion.'')
        (entered input_path output_path w))"
  using assms by (simp add: exec_ffmpeg_def entered_def Let_def)

lemma exec_ffmpeg_run:
  assumes "exists (fs w) input_path" and "\<not> exists (fs w) output_path"
  shows "fst (exec_ffmpeg run input_path output_path P w)
        = raised_by (ffmpeg_cmd input_path output_path P)
            (fst (run (ffmpeg_cmd input_path output_path P) (fs w)))"
    and "invoked (snd (exec_ffmpeg run input_path output_path P w))
        = invoked w @ [ffmpeg_cmd input_path output_path P]"
    and "fs (snd (exec_ffmpeg run input_path output_path P w))
        = snd (run (ffmpeg_cmd input_path output_path P) (fs w))"
  using assms
  by (auto simp add: exec_ffmpeg_def Let_def split: prod.splits run_result.splits)

lemma process_loop_append:
  "process_loop run P n i (pre @ rest) w =
     (case process_loop run P n i pre w of
        (Some e, w') \<Rightarrow> (Some e, w')
      | (None, w') \<Rightarrow> process_loop run P n (i + length pre) rest w')"
proof (induction pre arbitrary: i w)
  case Nil
  show ?case by simp
next
  case (Cons f pre)
  show ?case
    by (simp add: Cons.IH split: sum.splits prod.splits option.splits)
qed

lemma process_loop_stops:
  assumes "process_loop run P n i pre w = (None, w1)"
    and "output_file f P = Inr out"
    and "fst (exec_ffmpeg run f out P w1) = Some e"
  shows "process_loop run P n i (pre @ f # post) w = (Some e, snd (exec_ffmpeg run f out P w1))"
  using assms by (auto simp add: process_loop_append split: prod.splits option.splits)

lemma kept_refl: "kept files P fsys fsys"
  by (simp add: kept_def)

lemma kept_trans: "kept files P a b \<Longrightarrow> kept files P b c \<Longrightarrow> kept files P a c"
  by (simp add: kept_def)

lemma exec_ffmpeg_cases:
  assumes "exec_ffmpeg run g out P w = (None, w')"
  obtains (skipped) "exists (fs w) g" and "exists (fs w) out" and "fs w' = fs w" and "invoked w' = invoked w"
  | (ran) "exists (fs w) g" and "\<not> exists (fs w) out"
      and "run (ffmpeg_cmd g out P) (fs w) = (ReturnCode 0, fs w')"
proof (cases "exists (fs w) g")
  case False
  with assms show ?thesis by (simp add: exec_ffmpeg_missing)
next
  case g: True
  show ?thesis
  proof (cases "exists (fs w) out")
    case True
    with g assms have "fs w' = fs w" "invoked w' = invoked w"
      by (auto simp: exec_ffmpeg_skip)
    with g True show ?thesis by (rule skipped)
  next
    case False
    from exec_ffmpeg_run [OF g False, of run P] assms
    have "raised_by (ffmpeg_cmd g out P) (fst (run (ffmpeg_cmd g out P) (fs w))) = None"
      and "snd (run (ffmpeg_cmd g out P) (fs w)) = fs w'"
      by simp_all
    then have "run (ffmpeg_cmd g out P) (fs w) = (ReturnCode 0, fs w')"
      by (cases "run (ffmpeg_cmd g out P) (fs w)"; cases "fst (run (ffmpeg_cmd g out P) (fs w))")
         (auto split: if_splits)
    with g False show ?thesis by (rule ran)
  qed
qed

lemma exec_ffmpeg_kept:
  assumes "writes_output run files P" and "exec_ffmpeg run g out P w = (None, w')"
  shows "kept files P (fs w) (fs w')"
  using assms(2)
proof (cases rule: exec_ffmpeg_cases)
  case skipped
  then show ?thesis by (simp add: kept_refl)
next
  case ran
  with assms(1) show ?thesis by (auto simp: writes_output_def)
qed

lemma exec_ffmpeg_converted:
  assumes "writes_output run files P" and "exec_ffmpeg run g out P w = (None, w')"
    and "g \<in> set files" and "output_file g P = Inr out"
  shows "converted P (fs w') g"
  using assms(2)
proof (cases rule: exec_ffmpeg_cases)
  case skipped
  with assms(4) show ?thesis by (simp add: converted_def)
next
  case ran
  from assms(1) ran(3) have k: "kept files P (fs w) (fs w')"
    and o: "\<forall>f \<in> set files. \<forall>out'. output_file f P = Inr out' \<longrightarrow> ffmpeg_cmd g out P = ffmpeg_cmd f out' P \<longrightarrow> exists (fs w') out'"
    unfolding writes_output_def by blast+
  from k assms(3) ran(1) have "exists (fs w') g" by (auto simp: kept_def)
  moreover from o assms(3,4) have "exists (fs w') out" by blast
  ultimately show ?thesis using assms(4) by (simp add: converted_def)
qed

lemma process_loop_kept:
  assumes "writes_output run files P"
  shows "process_loop run P n i fl w = (None, w1) \<Longrightarrow> kept files P (fs w) (fs w1)"
proof (induction fl arbitrary: i w)
  case Nil
  then show ?case by (simp add: kept_refl)
next
  case (Cons g fl)
  from Cons.prems obtain out w' where out: "output_file g P = Inr out"
    and ex: "exec_ffmpeg run g out P w = (None, w')"
    and rest: "process_loop run P n (i + 1) fl (logging INFO (progress_message i n) w') = (None, w1)"
    by (auto split: sum.splits prod.splits option.splits)
  from exec_ffmpeg_kept [OF assms ex] Cons.IH [OF rest] show ?case
    by (auto intro: kept_trans)
qed

lemma process_loop_converted:
  assumes "writes_output run files P"
  shows "set fl \<subseteq> set files \<Longrightarrow> process_loop run P n i fl w = (None, w1) \<Longrightarrow>
    \<forall>f \<in> set fl. converted P (fs w1) f"
proof (induction fl arbitrary: i w)
  case Nil
  then show ?case by simp
next
  case (Cons g fl)
  from Cons.prems(2) obtain out w' where out: "output_file g P = Inr out"
    and ex: "exec_ffmpeg run g out P w = (None, w')"
    and rest: "process_loop run P n (i + 1) fl (logging INFO (progress_message i n) w') = (None, w1)"
    by (auto split: sum.splits prod.splits option.splits)
  from Cons.prems(1) have g: "g \<in> set files" and fl: "set fl \<subseteq> set files" by auto
  from exec_ffmpeg_converted [OF assms ex g out] have "converted P (fs w') g" .
  moreover from process_loop_kept [OF assms rest] have "kept files P (fs w') (fs w1)" by simp
  ultimately have "converted P (fs w1) g"
    using g out by (auto simp: converted_def kept_def)
  with Cons.IH [OF fl rest] show ?case by simp
qed

lemma process_loop_all_converted:
  "\<forall>f \<in> set fl. converted P (fs w) f \<Longrightarrow>
    fst (process_loop run P n i fl w) = None
    \<and> fs (snd (process_loop run P n i fl w)) = fs w
    \<and> invoked (snd (process_loop run P n i fl w)) = invoked w"
proof (induction fl arbitrary: i w)
  case Nil
  show ?case by simp
next
  case (Cons g fl)
  from Cons.prems obtain out where out: "output_file g P = Inr out"
    and g: "exists (fs w) g" and o: "exists (fs w) out"
    by (auto simp: converted_def split: sum.splits)
  let ?w' = "logging INFO (progress_message i n)
      (logging WARNING (''Output file '' @ str_path out @ '' already exists. Skipping conversion.'')
        (entered g out w))"
  have fsw: "fs ?w' = fs w" "invoked ?w' = invoked w" by (simp_all add: entered_def)
  from Cons.prems have "\<forall>f \<in> set fl. converted P (fs ?w') f" by (simp add: fsw)
  from Cons.IH [OF this, of "i + 1"] show ?case
    using out by (simp add: exec_ffmpeg_skip [OF g o] fsw)
qed

text \<open>
  C2. When the files before file \<open>f\<close> of a batch have been processed without an
  exception and the tool, invoked for \<open>f\<close>, does not return zero (it returns another code or
  cannot be started), the batch ends with what the conversion of \<open>f\<close> ends with: the
  exception (\<open>CalledProcessError\<close>, or \<open>OSError\<close>) leaves \<open>process_mp4_files\<close>, and the
  last command handed to the tool is the one of \<open>f\<close>. The files after \<open>f\<close> play no part.
\<close>

theorem tool_failure_stops_batch:
  assumes "process_loop run P (length (pre @ f # post)) 1 pre w = (None, w1)"
    and "output_file f P = Inr out"
    and "exists (fs w1) f" and "\<not> exists (fs w1) out"
    and "fst (run (ffmpeg_cmd f out P) (fs w1)) \<noteq> ReturnCode 0"
  shows "process_mp4_files run (pre @ f # post) P w = exec_ffmpeg run f out P w1
     \<and> fst (exec_ffmpeg run f out P w1) =
         (case fst (run (ffmpeg_cmd f out P) (fs w1)) of
            ReturnCode rc \<Rightarrow> Some (CalledProcessError (ffmpeg_cmd f out P) rc)
          | SpawnError \<Rightarrow> Some OSError)
     \<and> invoked (snd (exec_ffmpeg run f out P w1)) = invoked w1 @ [ffmpeg_cmd f out P]"
proof -
  from exec_ffmpeg_run(1) [OF assms(3,4), of run P] assms(5)
  have e: "fst (exec_ffmpeg run f out P w1) =
         (case fst (run (ffmpeg_cmd f out P) (fs w1)) of
            ReturnCode rc \<Rightarrow> Some (CalledProcessError (ffmpeg_cmd f out P) rc)
          | SpawnError \<Rightarrow> Some OSError)"
    by (cases "fst (run (ffmpeg_cmd f out P) (fs w1))") auto
  then obtain err where err: "fst (exec_ffmpeg run f out P w1) = Some err"
    by (cases "fst (run (ffmpeg_cmd f out P) (fs w1))") auto
  from process_loop_stops [OF assms(1,2) err, of post]
  have "process_mp4_files run (pre @ f # post) P w = exec_ffmpeg run f out P w1"
    using err by (simp add: process_mp4_files_def prod_eq_iff)
  with e exec_ffmpeg_run(2) [OF assms(3,4), of run P] show ?thesis by simp
qed

theorem tool_failure_stops_batch_witness:
  "fst (process_loop refusing av1_fhd (length ([file_a] @ file_b # [file_c])) 1 [file_a] (start batch_fs)) = None
   \<and> output_file file_b av1_fhd = Inr output_b
   \<and> exists batch_fs file_b
   \<and> \<not> exists batch_fs output_b
   \<and> fst (refusing (ffmpeg_cmd file_b output_b av1_fhd) batch_fs) \<noteq> ReturnCode 0
   \<and> fst (process_mp4_files refusing ([file_a] @ file_b # [file_c]) av1_fhd (start batch_fs))
       = Some (CalledProcessError (ffmpeg_cmd file_b output_b av1_fhd) 1)
   \<and> invoked (snd (process_mp4_files refusing ([file_a] @ file_b # [file_c]) av1_fhd (start batch_fs)))
       = [ffmpeg_cmd file_b output_b av1_fhd]"
proof -
  let ?pre = "process_loop refusing av1_fhd (length ([file_a] @ file_b # [file_c])) 1 [file_a] (start batch_fs)"
  have p: "fst ?pre = None" by code_simp
  have f1: "fs (snd ?pre) = batch_fs" by code_simp
  have i1: "invoked (snd ?pre) = []" by code_simp
  have h1: "?pre = (None, snd ?pre)" using p by (simp only: prod_eq_iff fst_conv snd_conv)
  have h2: "output_file file_b av1_fhd = Inr output_b" by code_simp
  have h3: "exists batch_fs file_b" by code_simp
  have h4: "\<not> exists batch_fs output_b" by code_simp
  have r: "fst (refusing (ffmpeg_cmd file_b output_b av1_fhd) batch_fs) = ReturnCode 1"
    by (simp add: refusing_def)
  then have h5: "fst (refusing (ffmpeg_cmd file_b output_b av1_fhd) batch_fs) \<noteq> ReturnCode 0"
    by simp
  have h3': "exists (fs (snd ?pre)) file_b" by (simp only: f1 h3)
  have h4': "\<not> exists (fs (snd ?pre)) output_b" by (simp only: f1 h4 not_False_eq_True)
  have h5': "fst (refusing (ffmpeg_cmd file_b output_b av1_fhd) (fs (snd ?pre))) \<noteq> ReturnCode 0"
    by (simp only: f1 h5 not_False_eq_True)
  from tool_failure_stops_batch [OF h1 h2 h3' h4' h5']
  have "fst (process_mp4_files refusing ([file_a] @ file_b # [file_c]) av1_fhd (start batch_fs))
       = Some (CalledProcessError (ffmpeg_cmd file_b output_b av1_fhd) 1)"
    and "invoked (snd (process_mp4_files refusing ([file_a] @ file_b # [file_c]) av1_fhd (start batch_fs)))
       = [ffmpeg_cmd file_b output_b av1_fhd]"
    by (simp_all only: f1 i1 r run_result.case append_Nil)
  with p h2 h3 h4 h5 show ?thesis by (intro conjI)
qed

text \<open>
  C6. When the files before file \<open>f\<close> of a batch have been processed without an
  exception and \<open>f\<close> does not exist, the conversion of \<open>f\<close> raises \<open>FileNotFoundError\<close>
  with the message that the input file does not exist, no command is handed to the tool, the
  file system is as before, and the batch ends with that exception.
\<close>

theorem missing_input_stops_batch:
  assumes "process_loop run P (length (pre @ f # post)) 1 pre w = (None, w1)"
    and "output_file f P = Inr out"
    and "\<not> exists (fs w1) f"
  shows "process_mp4_files run (pre @ f # post) P w = exec_ffmpeg run f out P w1
     \<and> fst (exec_ffmpeg run f out P w1)
         = Some (FileNotFoundError (''Input file '' @ str_path f @ '' does not exist.''))
     \<and> invoked (snd (exec_ffmpeg run f out P w1)) = invoked w1
     \<and> fs (snd (exec_ffmpeg run f out P w1)) = fs w1"
proof -
  note m = exec_ffmpeg_missing [OF assms(3), of run out P]
  then have err: "fst (exec_ffmpeg run f out P w1)
      = Some (FileNotFoundError (''Input file '' @ str_path f @ '' does not exist.''))"
    by simp
  from process_loop_stops [OF assms(1,2) err, of post]
  have "process_mp4_files run (pre @ f # post) P w = exec_ffmpeg run f out P w1"
    using err by (simp add: process_mp4_files_def prod_eq_iff)
  with m show ?thesis by simp
qed

theorem missing_input_stops_batch_witness:
  "fst (process_loop producing av1_fhd (length ([file_a] @ gone # [file_c])) 1 [file_a] (start batch_fs)) = None
   \<and> output_file gone av1_fhd = Inr output_gone
   \<and> \<not> exists batch_fs gone
   \<and> fst (process_mp4_files producing ([file_a] @ gone # [file_c]) av1_fhd (start batch_fs))
       = Some (FileNotFoundError (''Input file '' @ str_path gone @ '' does not exist.''))
   \<and> invoked (snd (process_mp4_files producing ([file_a] @ gone # [file_c]) av1_fhd (start batch_fs))) = []
   \<and> fs (snd (process_mp4_files producing ([file_a] @ gone # [file_c]) av1_fhd (start batch_fs))) = batch_fs"
proof -
  let ?pre = "process_loop producing av1_fhd (length ([file_a] @ gone # [file_c])) 1 [file_a] (start batch_fs)"
  have p: "fst ?pre = None" by code_simp
  have f1: "fs (snd ?pre) = batch_fs" by code_simp
  have i1: "invoked (snd ?pre) = []" by code_simp
  have h1: "?pre = (None, snd ?pre)" using p by (simp only: prod_eq_iff fst_conv snd_conv)
  have h2: "output_file gone av1_fhd = Inr output_gone" by code_simp
  have h3: "\<not> exists batch_fs gone" by code_simp
  have h3': "\<not> exists (fs (snd ?pre)) gone" by (simp only: f1 h3 not_False_eq_True)
  from missing_input_stops_batch [OF h1 h2 h3']
  have "fst (process_mp4_files producing ([file_a] @ gone # [file_c]) av1_fhd (start batch_fs))
       = Some (FileNotFoundError (''Input file '' @ str_path gone @ '' does not exist.''))"
    and "invoked (snd (process_mp4_files producing ([file_a] @ gone # [file_c]) av1_fhd (start batch_fs))) = []"
    and "fs (snd (process_mp4_files producing ([file_a] @ gone # [file_c]) av1_fhd (start batch_fs))) = batch_fs"
    by (simp_all only: f1 i1)
  with p h2 h3 show ?thesis by (intro conjI)
qed

text \<open>
  C5. For a path that is neither a file nor a directory, discovery returns no file and prints
  the line that the path is neither a valid file nor a folder, and \<open>main\<close> ends without an
  exception in the state discovery leaves: no command is handed to the tool and the file
  system is as before.
\<close>

theorem invalid_path_no_conversions:
  assumes "\<not> is_file (fs w) p" and "\<not> is_dir (fs w) p"
  shows "get_mp4_files p w = ([], print (str_path p @ '' is neither a valid file nor a folder.'') w)
     \<and> main run p P w = (None, print (str_path p @ '' is neither a valid file nor a folder.'') w)
     \<and> invoked (snd (main run p P w)) = invoked w
     \<and> fs (snd (main run p P w)) = fs w"
proof -
  from assms have "get_mp4_files p w = ([], print (str_path p @ '' is neither a valid file nor a folder.'') w)"
    by (simp add: get_mp4_files_def)
  then show ?thesis by (simp add: main_def process_mp4_files_def)
qed

theorem invalid_path_no_conversions_witness:
  "\<not> is_file (fs (start videos_fs)) gone
   \<and> \<not> is_dir (fs (start videos_fs)) gone
   \<and> get_mp4_files gone (start videos_fs)
       = ([], print (str_path gone @ '' is neither a valid file nor a folder.'') (start videos_fs))
   \<and> main refusing gone av1_fhd (start videos_fs)
       = (None, print (str_path gone @ '' is neither a valid file nor a folder.'') (start videos_fs))
   \<and> stdout (snd (main refusing gone av1_fhd (start videos_fs)))
       = [''/videos/gone.mp4 is neither a valid file nor a folder.'']"
proof -
  have h1: "\<not> is_file (fs (start videos_fs)) gone" by code_simp
  have h2: "\<not> is_dir (fs (start videos_fs)) gone" by code_simp
  have r: "stdout (print (str_path gone @ '' is neither a valid file nor a folder.'') (start videos_fs))
      = [''/videos/gone.mp4 is neither a valid file nor a folder.'']" by code_simp
  from invalid_path_no_conversions [OF h1 h2, of refusing av1_fhd]
  have "get_mp4_files gone (start videos_fs)
       = ([], print (str_path gone @ '' is neither a valid file nor a folder.'') (start videos_fs))"
    and m: "main refusing gone av1_fhd (start videos_fs)
       = (None, print (str_path gone @ '' is neither a valid file nor a folder.'') (start videos_fs))"
    by simp_all
  moreover from m r have "stdout (snd (main refusing gone av1_fhd (start videos_fs)))
       = [''/videos/gone.mp4 is neither a valid file nor a folder.'']"
    by (simp only: snd_conv)
  ultimately show ?thesis using h1 h2 by (intro conjI)
qed

text \<open>
  C3, as amended. When the input file exists and the output path exists, the conversion ends
  without an exception, hands no command to the tool, leaves the file system as it is, and its
  last log record is the warning that the output file already exists. With a tool that writes
  its output, a batch that has run without an exception, run again on the same list of files
  with the same preset from the state the first run left, runs without an exception, hands no
  command to the tool and leaves the file system as it is.
\<close>

theorem rerun_converts_nothing:
  "(exists (fs w) f \<and> exists (fs w) out \<longrightarrow>
      fst (exec_ffmpeg run f out P w) = None
      \<and> invoked (snd (exec_ffmpeg run f out P w)) = invoked w
      \<and> fs (snd (exec_ffmpeg run f out P w)) = fs w
      \<and> last (log_records (snd (exec_ffmpeg run f out P w)))
          = (WARNING, ''Output file '' @ str_path out @ '' already exists. Skipping conversion.''))
   \<and> (writes_output run files P \<and> process_mp4_files run files P w0 = (None, w1) \<longrightarrow>
      fst (process_mp4_files run files P w1) = None
      \<and> invoked (snd (process_mp4_files run files P w1)) = invoked w1
      \<and> fs (snd (process_mp4_files run files P w1)) = fs w1)"
proof (intro conjI impI)
  assume a: "exists (fs w) f \<and> exists (fs w) out"
  then have e: "exec_ffmpeg run f out P w =
     (None, logging WARNING (''Output file '' @ str_path out @ '' already exists. Skipping conversion.'')
        (entered f out w))"
    by (simp add: exec_ffmpeg_skip)
  show "fst (exec_ffmpeg run f out P w) = None"
    and "invoked (snd (exec_ffmpeg run f out P w)) = invoked w"
    and "fs (snd (exec_ffmpeg run f out P w)) = fs w"
    by (simp_all add: e)
  show "last (log_records (snd (exec_ffmpeg run f out P w)))
          = (WARNING, ''Output file '' @ str_path out @ '' already exists. Skipping conversion.'')"
    by (simp add: e logging_def)
next
  assume b: "writes_output run files P \<and> process_mp4_files run files P w0 = (None, w1)"
  then have "\<forall>f \<in> set files. converted P (fs w1) f"
    using process_loop_converted [of run files P files "length files" 1 w0 w1]
    by (simp add: process_mp4_files_def)
  from process_loop_all_converted [OF this, of run "length files" 1]
  show "fst (process_mp4_files run files P w1) = None"
    and "invoked (snd (process_mp4_files run files P w1)) = invoked w1"
    and "fs (snd (process_mp4_files run files P w1)) = fs w1"
    by (simp_all add: process_mp4_files_def)
qed

lemma producing_writes_output: "writes_output producing [file_a, file_b] av1_fhd"
proof -
  have oa: "output_file file_a av1_fhd = Inr output_a" by code_simp
  have ob: "output_file file_b av1_fhd = Inr output_b" by code_simp
  have e: "exists done_fs file_a" "exists done_fs file_b" "exists done_fs output_a" "exists done_fs output_b"
    by code_simp+
  show ?thesis
    by (auto simp: writes_output_def kept_def producing_def oa ob e)
qed

theorem rerun_converts_nothing_witness:
  "exists (fs (start batch_fs)) file_a \<and> exists (fs (start batch_fs)) output_a
   \<and> fst (exec_ffmpeg producing file_a output_a av1_fhd (start batch_fs)) = None
   \<and> invoked (snd (exec_ffmpeg producing file_a output_a av1_fhd (start batch_fs))) = invoked (start batch_fs)
   \<and> last (log_records (snd (exec_ffmpeg producing file_a output_a av1_fhd (start batch_fs))))
        = (WARNING, ''Output file '' @ str_path output_a @ '' already exists. Skipping conversion.'')
   \<and> writes_output producing [file_a, file_b] av1_fhd
   \<and> fst (process_mp4_files producing [file_a, file_b] av1_fhd (start batch_fs)) = None
   \<and> invoked (snd (process_mp4_files producing [file_a, file_b] av1_fhd (start batch_fs)))
        = [ffmpeg_cmd file_b output_b av1_fhd]
   \<and> fst (process_mp4_files producing [file_a, file_b] av1_fhd
             (snd (process_mp4_files producing [file_a, file_b] av1_fhd (start batch_fs)))) = None
   \<and> invoked (snd (process_mp4_files producing [file_a, file_b] av1_fhd
             (snd (process_mp4_files producing [file_a, file_b] av1_fhd (start batch_fs)))))
        = [ffmpeg_cmd file_b output_b av1_fhd]"
proof -
  let ?first = "process_mp4_files producing [file_a, file_b] av1_fhd (start batch_fs)"
  have h1: "exists (fs (start batch_fs)) file_a \<and> exists (fs (start batch_fs)) output_a" by code_simp
  have p: "fst ?first = None" by code_simp
  have i: "invoked (snd ?first) = [ffmpeg_cmd file_b output_b av1_fhd]" by code_simp
  have h2: "writes_output producing [file_a, file_b] av1_fhd \<and> ?first = (None, snd ?first)"
    using producing_writes_output p by (simp only: prod_eq_iff fst_conv snd_conv simp_thms)
  note t = rerun_converts_nothing [where w = "start batch_fs" and f = file_a and out = output_a
      and run = producing and P = av1_fhd and files = "[file_a, file_b]" and ?w0.0 = "start batch_fs"
      and ?w1.0 = "snd ?first"]
  from t h1 have a: "fst (exec_ffmpeg producing file_a output_a av1_fhd (start batch_fs)) = None"
    "invoked (snd (exec_ffmpeg producing file_a output_a av1_fhd (start batch_fs))) = invoked (start batch_fs)"
    "last (log_records (snd (exec_ffmpeg producing file_a output_a av1_fhd (start batch_fs))))
        = (WARNING, ''Output file '' @ str_path output_a @ '' already exists. Skipping conversion.'')"
    by blast+
  from t h2 have b: "fst (process_mp4_files producing [file_a, file_b] av1_fhd (snd ?first)) = None"
    "invoked (snd (process_mp4_files producing [file_a, file_b] av1_fhd (snd ?first))) = invoked (snd ?first)"
    by blast+
  from b(2) i have c: "invoked (snd (process_mp4_files producing [file_a, file_b] av1_fhd (snd ?first)))
      = [ffmpeg_cmd file_b output_b av1_fhd]" by (simp only:)
  from h1 a h2 p i b(1) c show ?thesis by (intro conjI) (simp_all only:)
qed

text \<open>
  C3, as claimed, fails in two places. The existence of the input is checked before that of
  the output: where the output file of \<open>gone.mp4\<close> exists and \<open>gone.mp4\<close> does not, the
  conversion raises \<open>FileNotFoundError\<close>. And the program discovers its files on every run:
  over \<open>/videos\<close> holding \<open>a.mp4\<close>, with the preset \<open>h265_fhd_6\<close>, whose output files are
  \<open>.mp4\<close> files, the first run converts \<open>a.mp4\<close> and exits with status 0, and the second
  run, on the file system the first has left, converts the output file of the first.
\<close>

theorem rerun_counterexample:
  "output_file gone av1_fhd = Inr output_gone
   \<and> exists (fs (start orphan_fs)) output_gone
   \<and> fst (exec_ffmpeg producing gone output_gone av1_fhd (start orphan_fs))
        = Some (FileNotFoundError ''Input file /videos/gone.mp4 does not exist.'')
   \<and> fst (program h265_tool videos_args (start fresh_fs)) = Exit 0
   \<and> invoked (snd (program h265_tool videos_args (start fresh_fs)))
        = [ffmpeg_cmd file_a once_a h265_fhd]
   \<and> fst (program h265_tool videos_args
          (start (fs (snd (program h265_tool videos_args (start fresh_fs)))))) = Exit 0
   \<and> invoked (snd (program h265_tool videos_args
          (start (fs (snd (program h265_tool videos_args (start fresh_fs)))))))
        = [ffmpeg_cmd once_a twice_a h265_fhd]"
  by code_simp

section \<open>The command line of a conversion\<close>






section \<open>Listing the presets\<close>

lemma preset_lines:
  "map preset_line VideoPreset_members =
     [''  * h265_fhd_6: codec:h265 (ext:mp4, lib:libx265) fhd:1920:1080 6Mbps'',
      ''  * h265_uhd_40: codec:h265 (ext:mp4, lib:libx265) uhd:3840:2160 40Mbps'',
      ''  * av1_fhd_5: codec:av1 (ext:mkv, lib:libaom-av1) fhd:1920:1080 5Mbps'',
      ''  * av1_uhd_20: codec:av1 (ext:mkv, lib:libaom-av1) uhd:3840:2160 20Mbps'']"
  by code_simp

lemma preset_line_once: "count_list (map preset_line VideoPreset_members) (preset_line member) = 1"
proof (cases member)
  case h265_fhd_6
  have "count_list (map preset_line VideoPreset_members) (preset_line h265_fhd_6) = 1" by code_simp
  with h265_fhd_6 show ?thesis by simp
next
  case h265_uhd_40
  have "count_list (map preset_line VideoPreset_members) (preset_line h265_uhd_40) = 1" by code_simp
  with h265_uhd_40 show ?thesis by simp
next
  case av1_fhd_5
  have "count_list (map preset_line VideoPreset_members) (preset_line av1_fhd_5) = 1" by code_simp
  with av1_fhd_5 show ?thesis by simp
next
  case av1_uhd_20
  have "count_list (map preset_line VideoPreset_members) (preset_line av1_uhd_20) = 1" by code_simp
  with av1_uhd_20 show ?thesis by simp
qed

text \<open>
  C8. With the flag \<open>list_presets\<close> the program prints an empty line, the line
  \<open>PRESETS:\<close>, one line for each member of \<open>VideoPreset\<close> in the order of declaration, and
  an empty line; the line of a member holds its name and its codec, resolution and bit rate,
  and it is printed once. The program then exits with status 1, and has neither touched the
  file system nor run the tool.
\<close>

theorem list_presets_exits_1:
  assumes "list_presets a"
  shows "fst (program run a w) = Exit 1
     \<and> stdout (snd (program run a w)) = stdout w @ [[], ''PRESETS:''] @ map preset_line VideoPreset_members @ [[]]
     \<and> map preset_line VideoPreset_members =
         [''  * h265_fhd_6: codec:h265 (ext:mp4, lib:libx265) fhd:1920:1080 6Mbps'',
          ''  * h265_uhd_40: codec:h265 (ext:mp4, lib:libx265) uhd:3840:2160 40Mbps'',
          ''  * av1_fhd_5: codec:av1 (ext:mkv, lib:libaom-av1) fhd:1920:1080 5Mbps'',
          ''  * av1_uhd_20: codec:av1 (ext:mkv, lib:libaom-av1) uhd:3840:2160 20Mbps'']
     \<and> (\<forall>member. count_list (map preset_line VideoPreset_members) (preset_line member) = 1)
     \<and> fs (snd (program run a w)) = fs w
     \<and> invoked (snd (program run a w)) = invoked w"
proof -
  have "program run a w = (Exit 1, print_presets w)"
    using assms by (simp add: program_def)
  moreover have "stdout (print_presets w) = stdout w @ [[], ''PRESETS:''] @ map preset_line VideoPreset_members @ [[]]"
    and "fs (print_presets w) = fs w" and "invoked (print_presets w) = invoked w"
    by (simp_all add: print_presets_def print_def VideoPreset_members_def)
  ultimately show ?thesis
    using preset_lines preset_line_once by (simp only: fst_conv snd_conv simp_thms)
qed

theorem list_presets_exits_1_witness:
  "list_presets list_args
   \<and> fst (program refusing list_args (start videos_fs)) = Exit 1
   \<and> stdout (snd (program refusing list_args (start videos_fs))) =
        [[], ''PRESETS:'',
         ''  * h265_fhd_6: codec:h265 (ext:mp4, lib:libx265) fhd:1920:1080 6Mbps'',
         ''  * h265_uhd_40: codec:h265 (ext:mp4, lib:libx265) uhd:3840:2160 40Mbps'',
         ''  * av1_fhd_5: codec:av1 (ext:mkv, lib:libaom-av1) fhd:1920:1080 5Mbps'',
         ''  * av1_uhd_20: codec:av1 (ext:mkv, lib:libaom-av1) uhd:3840:2160 20Mbps'',
         []]"
proof -
  have h: "list_presets list_args" by (simp add: list_args_def)
  have s: "stdout (start videos_fs) = []" by (simp add: start_def)
  from list_presets_exits_1 [OF h, of refusing "start videos_fs"]
  have "fst (program refusing list_args (start videos_fs)) = Exit 1"
    and "stdout (snd (program refusing list_args (start videos_fs))) =
        [[], ''PRESETS:'',
         ''  * h265_fhd_6: codec:h265 (ext:mp4, lib:libx265) fhd:1920:1080 6Mbps'',
         ''  * h265_uhd_40: codec:h265 (ext:mp4, lib:libx265) uhd:3840:2160 40Mbps'',
         ''  * av1_fhd_5: codec:av1 (ext:mkv, lib:libaom-av1) fhd:1920:1080 5Mbps'',
         ''  * av1_uhd_20: codec:av1 (ext:mkv, lib:libaom-av1) uhd:3840:2160 20Mbps'',
         []]"
    by (simp_all add: s)
  with h show ?thesis by (intro conjI)
qed

end
